theory Spec2Isabelle
  imports Complex_Main
begin

section \<open>Values\<close>

text \<open>
  A Python float. \<open>Finite x\<close> is the double that Python makes of a number written with
  the value \<open>x\<close> (the nearest double); the other three are the doubles that are no
  numbers. The server passes floats on and never computes with them.
\<close>

datatype pyfloat = Finite real | Infinity | Neg_Infinity | NaN

text \<open>
  The Python values that occur in \<^verbatim>\<open>server.py\<close>. A dict is an association list in
  insertion order.
\<close>

datatype pyval =
    PNone
  | PBool bool
  | PInt int
  | PFloat pyfloat
  | PStr string
  | PList "pyval list"
  | PDict "(string \<times> pyval) list"

text \<open>
  A request body as \<^verbatim>\<open>json.loads\<close> decodes it. \<open>JInt\<close> is a number written without
  fraction or exponent; \<open>JFloat\<close> is any other number, and the tokens \<^verbatim>\<open>NaN\<close>,
  \<^verbatim>\<open>Infinity\<close> and \<^verbatim>\<open>-Infinity\<close>, which the decoder accepts.
\<close>

datatype json =
    JNull
  | JBool bool
  | JInt int
  | JFloat pyfloat
  | JStr string
  | JArr "json list"
  | JObj "(string \<times> json) list"

text \<open>
  What a raise carries. \<open>Exception s\<close> is an instance \<open>e\<close> of \<^verbatim>\<open>Exception\<close> with
  \<^verbatim>\<open>str(e)\<close> equal to \<open>s\<close>; \<open>HTTPException status detail\<close> is FastAPI's exception.
\<close>

datatype exn = Exception string | HTTPException nat string

section \<open>The request models (server.py, lines 17 to 30)\<close>

record Message =
  role :: string
  content :: string

record ChatCompletionRequest =
  model :: string
  messages :: "Message list"
  temperature :: "pyfloat option"
  max_tokens :: "int option"
  top_p :: "pyfloat option"
  frequency_penalty :: "pyfloat option"
  presence_penalty :: "pyfloat option"
  stop :: "string list option"
  stream :: "bool option"

section \<open>Request validation\<close>

text \<open>
  FastAPI builds the handler's \<^verbatim>\<open>request\<close> argument from the decoded body through the
  pydantic model, before the handler runs. How pydantic turns a value into a \<^verbatim>\<open>str\<close>,
  a \<^verbatim>\<open>float\<close>, an \<^verbatim>\<open>int\<close> or a \<^verbatim>\<open>bool\<close> is the library's affair and not written in
  this repository (it accepts more than the values of the type itself: a numeric string
  for a number, 1 for a bool). These four conversions are a parameter of the model;
  \<open>None\<close> is a value the library refuses.
\<close>

record coercion =
  coerce_str :: "json \<Rightarrow> string option"
  coerce_float :: "json \<Rightarrow> pyfloat option"
  coerce_int :: "json \<Rightarrow> int option"
  coerce_bool :: "json \<Rightarrow> bool option"

text \<open>
  What every version of the library does: a value that already has the type of the field
  is taken as it is.
\<close>

definition keeps_native :: "coercion \<Rightarrow> bool" where
  "keeps_native V \<longleftrightarrow>
     (\<forall>s. coerce_str V (JStr s) = Some s) \<and>
     (\<forall>x. coerce_float V (JFloat x) = Some x) \<and>
     (\<forall>i. coerce_int V (JInt i) = Some i) \<and>
     (\<forall>b. coerce_bool V (JBool b) = Some b)"

text \<open>
  The rest follows the class declarations: a field without default is required, a field
  with a default takes it when the key is absent, an \<^verbatim>\<open>Optional\<close> field accepts
  \<^verbatim>\<open>null\<close> as \<open>None\<close>, a \<^verbatim>\<open>List\<close> field takes an array and converts its elements, a
  model takes an object, and keys that are not fields are ignored. Of the errors only the
  first is kept.
\<close>

datatype schema_error = Missing string | Invalid string

text \<open>\<^verbatim>\<open>json.loads\<close> keeps the last occurrence of a repeated key.\<close>

definition jget :: "(string \<times> json) list \<Rightarrow> string \<Rightarrow> json option" where
  "jget members k = map_of (rev members) k"

text \<open>The type \<^verbatim>\<open>List[str]\<close>.\<close>

fun validate_str_list :: "coercion \<Rightarrow> json \<Rightarrow> string list option" where
  "validate_str_list V (JArr xs) = those (map (coerce_str V) xs)"
| "validate_str_list V _ = None"

definition bind_result :: "'e + 'a \<Rightarrow> ('a \<Rightarrow> 'e + 'b) \<Rightarrow> 'e + 'b" where
  "bind_result r f = (case r of Inl e \<Rightarrow> Inl e | Inr x \<Rightarrow> f x)"

text \<open>A field declared \<^verbatim>\<open>name: T\<close>.\<close>

definition required ::
  "(json \<Rightarrow> 'a option) \<Rightarrow> string \<Rightarrow> (string \<times> json) list \<Rightarrow> schema_error + 'a" where
  "required f name members =
     (case jget members name of
        None \<Rightarrow> Inl (Missing name)
      | Some v \<Rightarrow> (case f v of None \<Rightarrow> Inl (Invalid name) | Some x \<Rightarrow> Inr x))"

text \<open>A field declared \<^verbatim>\<open>name: T = d\<close>.\<close>

definition with_default ::
  "(json \<Rightarrow> 'a option) \<Rightarrow> 'a \<Rightarrow> string \<Rightarrow> (string \<times> json) list \<Rightarrow> schema_error + 'a" where
  "with_default f d name members =
     (case jget members name of
        None \<Rightarrow> Inr d
      | Some v \<Rightarrow> (case f v of None \<Rightarrow> Inl (Invalid name) | Some x \<Rightarrow> Inr x))"

text \<open>A field declared \<^verbatim>\<open>name: Optional[T] = d\<close>.\<close>

definition optional ::
  "(json \<Rightarrow> 'a option) \<Rightarrow> 'a option \<Rightarrow> string \<Rightarrow> (string \<times> json) list
    \<Rightarrow> schema_error + 'a option" where
  "optional f d name members =
     (case jget members name of
        None \<Rightarrow> Inr d
      | Some JNull \<Rightarrow> Inr None
      | Some v \<Rightarrow> (case f v of None \<Rightarrow> Inl (Invalid name) | Some x \<Rightarrow> Inr (Some x)))"

fun validate_Message :: "coercion \<Rightarrow> json \<Rightarrow> schema_error + Message" where
  "validate_Message V (JObj members) =
     bind_result (required (coerce_str V) ''role'' members) (\<lambda>r.
     bind_result (required (coerce_str V) ''content'' members) (\<lambda>c.
     Inr \<lparr>role = r, content = c\<rparr>))"
| "validate_Message V _ = Inl (Invalid ''messages'')"

fun validate_Messages :: "coercion \<Rightarrow> json list \<Rightarrow> schema_error + Message list" where
  "validate_Messages V [] = Inr []"
| "validate_Messages V (x # xs) =
     bind_result (validate_Message V x) (\<lambda>m.
     bind_result (validate_Messages V xs) (\<lambda>ms.
     Inr (m # ms)))"

text \<open>The field \<^verbatim>\<open>messages: List[Message]\<close>: any array of messages, the empty one too.\<close>

definition required_messages ::
  "coercion \<Rightarrow> (string \<times> json) list \<Rightarrow> schema_error + Message list" where
  "required_messages V members =
     (case jget members ''messages'' of
        None \<Rightarrow> Inl (Missing ''messages'')
      | Some (JArr xs) \<Rightarrow> validate_Messages V xs
      | Some _ \<Rightarrow> Inl (Invalid ''messages''))"

fun validate_ChatCompletionRequest ::
  "coercion \<Rightarrow> json \<Rightarrow> schema_error + ChatCompletionRequest" where
  "validate_ChatCompletionRequest V (JObj members) =
     bind_result (with_default (coerce_str V) ''groq/llama-3.3-70b-versatile'' ''model'' members) (\<lambda>m.
     bind_result (required_messages V members) (\<lambda>ms.
     bind_result (optional (coerce_float V) (Some (Finite (7 / 10))) ''temperature'' members) (\<lambda>t.
     bind_result (optional (coerce_int V) None ''max_tokens'' members) (\<lambda>mt.
     bind_result (optional (coerce_float V) (Some (Finite 1)) ''top_p'' members) (\<lambda>tp.
     bind_result (optional (coerce_float V) (Some (Finite 0)) ''frequency_penalty'' members) (\<lambda>fp.
     bind_result (optional (coerce_float V) (Some (Finite 0)) ''presence_penalty'' members) (\<lambda>pp.
     bind_result (optional (validate_str_list V) None ''stop'' members) (\<lambda>sp.
     bind_result (optional (coerce_bool V) (Some False) ''stream'' members) (\<lambda>sm.
     Inr \<lparr>model = m, messages = ms, temperature = t, max_tokens = mt, top_p = tp,
          frequency_penalty = fp, presence_penalty = pp, stop = sp, stream = sm\<rparr>)))))))))"
| "validate_ChatCompletionRequest V _ = Inl (Invalid ''body'')"

section \<open>The handlers (server.py, lines 44 to 117)\<close>

text \<open>\<^verbatim>\<open>list_models\<close> (lines 44 to 81) takes no argument and returns a dict literal.\<close>

definition list_models :: pyval where
  "list_models =
     PDict [(''object'', PStr ''list''),
            (''data'', PList
               [PDict [(''id'', PStr ''groq/llama-3.3-70b-versatile''),
                       (''object'', PStr ''model''),
                       (''created'', PInt 1234567890),
                       (''owned_by'', PStr ''groq'')],
                PDict [(''id'', PStr ''groq/llama-3.1-8b-instant''),
                       (''object'', PStr ''model''),
                       (''created'', PInt 1234567890),
                       (''owned_by'', PStr ''groq'')],
                PDict [(''id'', PStr ''groq/deepseek-r1-distill-llama-70b''),
                       (''object'', PStr ''model''),
                       (''created'', PInt 1234567890),
                       (''owned_by'', PStr ''groq'')],
                PDict [(''id'', PStr ''groq/meta-llama/llama-4-maverick-17b-128e-instruct''),
                       (''object'', PStr ''model''),
                       (''created'', PInt 1234567890),
                       (''owned_by'', PStr ''groq'')],
                PDict [(''id'', PStr ''groq/meta-llama/llama-4-scout-17b-16e-instruct''),
                       (''object'', PStr ''model''),
                       (''created'', PInt 1234567890),
                       (''owned_by'', PStr ''groq'')]])]"

text \<open>An optional attribute as a Python value: \<open>None\<close> or the value.\<close>

fun attr :: "('a \<Rightarrow> pyval) \<Rightarrow> 'a option \<Rightarrow> pyval" where
  "attr f None = PNone"
| "attr f (Some x) = f x"

text \<open>Line 88: one dict with the keys \<^verbatim>\<open>role\<close> and \<^verbatim>\<open>content\<close> for each message.\<close>

definition message_dict :: "Message \<Rightarrow> pyval" where
  "message_dict msg = PDict [(''role'', PStr (role msg)), (''content'', PStr (content msg))]"

text \<open>Lines 91 to 101: the dict literal, every field of the request under its own name.\<close>

definition litellm_params_all :: "ChatCompletionRequest \<Rightarrow> (string \<times> pyval) list" where
  "litellm_params_all request =
     [(''model'', PStr (model request)),
      (''messages'', PList (map message_dict (messages request))),
      (''temperature'', attr PFloat (temperature request)),
      (''max_tokens'', attr PInt (max_tokens request)),
      (''top_p'', attr PFloat (top_p request)),
      (''frequency_penalty'', attr PFloat (frequency_penalty request)),
      (''presence_penalty'', attr PFloat (presence_penalty request)),
      (''stop'', attr (\<lambda>xs. PList (map PStr xs)) (stop request)),
      (''stream'', attr PBool (stream request))]"

text \<open>Line 104: the comprehension that keeps the items whose value is not \<open>None\<close>.\<close>

definition litellm_params :: "ChatCompletionRequest \<Rightarrow> (string \<times> pyval) list" where
  "litellm_params request = filter (\<lambda>(k, v). v \<noteq> PNone) (litellm_params_all request)"

text \<open>
  Lines 84 to 112. The external call \<^verbatim>\<open>litellm.completion\<close> is the parameter
  \<open>completion\<close>: given the keyword arguments it returns a response (\<open>Inr\<close>) or raises an
  instance of \<^verbatim>\<open>Exception\<close> whose string is the \<open>Inl\<close> value. The handler returns the
  response or raises.
\<close>

definition chat_completions ::
  "((string \<times> pyval) list \<Rightarrow> string + 'r) \<Rightarrow> ChatCompletionRequest \<Rightarrow> exn + 'r" where
  "chat_completions completion request =
     (case completion (litellm_params request) of
        Inr response \<Rightarrow> Inr response
      | Inl e \<Rightarrow> Inl (HTTPException 500 (''Error processing request: '' @ e)))"

definition chat_completions_simple ::
  "((string \<times> pyval) list \<Rightarrow> string + 'r) \<Rightarrow> ChatCompletionRequest \<Rightarrow> exn + 'r" where
  "chat_completions_simple completion request = chat_completions completion request"

section \<open>The HTTP surface\<close>

text \<open>
  What FastAPI does around a handler. A body that fails validation is answered with
  status 422 and the handler is not called; \<^verbatim>\<open>server.py\<close> registers no exception handler
  of its own. The value a handler returns is encoded as JSON after the handler has
  returned, outside its \<^verbatim>\<open>try\<close> block: \<open>encode\<close> is that encoding, a parameter since the
  object of the external library is opaque here, and \<open>None\<close> when the object cannot be
  encoded. An \<^verbatim>\<open>HTTPException\<close> is answered with its status and
  \<^verbatim>\<open>{"detail": detail}\<close>. Any other exception, a failure of the encoding too, leaves the
  application unhandled and the server answers a bare 500.
\<close>

datatype 'j body =
    Result 'j
  | Detail string
  | Validation_Detail schema_error
  | Internal_Server_Error

fun respond :: "('r \<Rightarrow> 'j option) \<Rightarrow> exn + 'r \<Rightarrow> nat \<times> 'j body" where
  "respond encode (Inr r) =
     (case encode r of Some j \<Rightarrow> (200, Result j) | None \<Rightarrow> (500, Internal_Server_Error))"
| "respond encode (Inl (HTTPException code detail)) = (code, Detail detail)"
| "respond encode (Inl (Exception e)) = (500, Internal_Server_Error)"

definition post_v1_chat_completions ::
  "coercion \<Rightarrow> ('r \<Rightarrow> 'j option) \<Rightarrow> ((string \<times> pyval) list \<Rightarrow> string + 'r) \<Rightarrow> json
    \<Rightarrow> nat \<times> 'j body" where
  "post_v1_chat_completions V encode completion body =
     (case validate_ChatCompletionRequest V body of
        Inl err \<Rightarrow> (422, Validation_Detail err)
      | Inr request \<Rightarrow> respond encode (chat_completions completion request))"

definition post_chat_completions ::
  "coercion \<Rightarrow> ('r \<Rightarrow> 'j option) \<Rightarrow> ((string \<times> pyval) list \<Rightarrow> string + 'r) \<Rightarrow> json
    \<Rightarrow> nat \<times> 'j body" where
  "post_chat_completions V encode completion body =
     (case validate_ChatCompletionRequest V body of
        Inl err \<Rightarrow> (422, Validation_Detail err)
      | Inr request \<Rightarrow> respond encode (chat_completions_simple completion request))"

text \<open>
  The encoding of a plain Python value: it is its own JSON, unless a float in it is no
  number, which the JSON response refuses.
\<close>

primrec json_compliant :: "pyval \<Rightarrow> bool" where
  "json_compliant PNone = True"
| "json_compliant (PBool b) = True"
| "json_compliant (PInt i) = True"
| "json_compliant (PFloat x) = (case x of Finite r \<Rightarrow> True | _ \<Rightarrow> False)"
| "json_compliant (PStr s) = True"
| "json_compliant (PList xs) = list_all id (map json_compliant xs)"
| "json_compliant (PDict kvs) = list_all snd (map (map_prod id json_compliant) kvs)"

definition encode_pyval :: "pyval \<Rightarrow> pyval option" where
  "encode_pyval v = (if json_compliant v then Some v else None)"

definition get_v1_models :: "nat \<times> pyval body" where
  "get_v1_models = respond encode_pyval (Inr list_models)"

section \<open>Reading Python values\<close>

fun dict_items :: "pyval \<Rightarrow> (string \<times> pyval) list" where
  "dict_items (PDict kvs) = kvs"
| "dict_items _ = []"

definition dict_keys :: "pyval \<Rightarrow> string list" where
  "dict_keys d = map fst (dict_items d)"

definition dict_get :: "pyval \<Rightarrow> string \<Rightarrow> pyval option" where
  "dict_get d k = map_of (dict_items d) k"

section \<open>Example inputs\<close>

text \<open>
  An instance of the conversions for the examples: each type takes the values of its own
  kind, a float an integer too, and an \<^verbatim>\<open>int\<close> the string \<^verbatim>\<open>"100"\<close>. It stands for no
  version of the library; the theorems hold for every instance.
\<close>

definition example_coercion :: coercion where
  "example_coercion =
     \<lparr>coerce_str = (\<lambda>v. case v of JStr s \<Rightarrow> Some s | _ \<Rightarrow> None),
      coerce_float = (\<lambda>v. case v of JFloat x \<Rightarrow> Some x | JInt i \<Rightarrow> Some (Finite (of_int i))
                         | _ \<Rightarrow> None),
      coerce_int = (\<lambda>v. case v of JInt i \<Rightarrow> Some i
                       | JStr s \<Rightarrow> (if s = ''100'' then Some 100 else None) | _ \<Rightarrow> None),
      coerce_bool = (\<lambda>v. case v of JBool b \<Rightarrow> Some b | _ \<Rightarrow> None)\<rparr>"

text \<open>An external call that returns its keyword arguments as a dict.\<close>

definition echo :: "(string \<times> pyval) list \<Rightarrow> string + pyval" where
  "echo params = Inr (PDict params)"

text \<open>The request of \<^verbatim>\<open>client_example.py\<close> (lines 8 to 15).\<close>

definition joke_body :: json where
  "joke_body =
     JObj [(''model'', JStr ''groq/llama-3.3-70b-versatile''),
           (''messages'', JArr [JObj [(''role'', JStr ''user''),
                                     (''content'', JStr ''Hello! Can you tell me a joke?'')]]),
           (''temperature'', JFloat (Finite (7 / 10))),
           (''max_tokens'', JInt 150)]"

text \<open>The request of \<^verbatim>\<open>main.py\<close> (lines 10 to 15), with four more fields.\<close>

definition hello_members :: "(string \<times> json) list" where
  "hello_members =
     [(''model'', JStr ''groq/llama-3.1-8b-instant''),
      (''messages'', JArr [JObj [(''role'', JStr ''user''),
                                (''content'', JStr ''hello from litellm'')]]),
      (''temperature'', JFloat (Finite (1 / 2))),
      (''max_tokens'', JInt 100),
      (''stop'', JArr [JStr ''END'']),
      (''stream'', JBool True)]"

definition hello_request :: ChatCompletionRequest where
  "hello_request =
     \<lparr>model = ''groq/llama-3.1-8b-instant'',
      messages = [\<lparr>role = ''user'', content = ''hello from litellm''\<rparr>],
      temperature = Some (Finite (1 / 2)), max_tokens = Some 100, top_p = Some (Finite 1),
      frequency_penalty = Some (Finite 0), presence_penalty = Some (Finite 0),
      stop = Some [''END''], stream = Some True\<rparr>"



section \<open>Facts about the parameter dict and about validation\<close>

lemma map_of_filter_value:
  "distinct (map fst xs) \<Longrightarrow>
   map_of (filter (\<lambda>(k, v). P v) xs) k =
     (case map_of xs k of None \<Rightarrow> None | Some v \<Rightarrow> if P v then Some v else None)"
proof (induction xs)
  case Nil
  then show ?case by simp
next
  case (Cons x xs)
  obtain a b where x: "x = (a, b)" by (cases x)
  from Cons.prems have notin: "a \<notin> fst ` set xs" and d: "distinct (map fst xs)"
    by (simp_all add: x)
  from notin have "map_of xs a = None" by (simp add: map_of_eq_None_iff)
  with Cons.IH [OF d] show ?case by (auto simp: x)
qed

lemma map_of_litellm_params:
  "map_of (litellm_params request) k =
    (if k = ''model'' then Some (PStr (model request))
     else if k = ''messages'' then Some (PList (map message_dict (messages request)))
     else if k = ''temperature'' then map_option PFloat (temperature request)
     else if k = ''max_tokens'' then map_option PInt (max_tokens request)
     else if k = ''top_p'' then map_option PFloat (top_p request)
     else if k = ''frequency_penalty'' then map_option PFloat (frequency_penalty request)
     else if k = ''presence_penalty'' then map_option PFloat (presence_penalty request)
     else if k = ''stop'' then map_option (\<lambda>xs. PList (map PStr xs)) (stop request)
     else if k = ''stream'' then map_option PBool (stream request)
     else None)"
proof -
  have d: "distinct (map fst (litellm_params_all request))"
    by (simp add: litellm_params_all_def)
  have a: "\<And>f y. (\<And>x. f x \<noteq> PNone) \<Longrightarrow>
     (if attr f y \<noteq> PNone then Some (attr f y) else None) = map_option f y"
    subgoal for f y by (cases y) simp_all
    done
  show ?thesis
    unfolding litellm_params_def map_of_filter_value [OF d]
    by (simp add: litellm_params_all_def a)
qed




lemma bind_result_Inr:
  "bind_result r f = Inr y \<longleftrightarrow> (\<exists>x. r = Inr x \<and> f x = Inr y)"
  by (cases r) (simp_all add: bind_result_def)

lemma validate_fields:
  assumes "validate_ChatCompletionRequest V (JObj members) = Inr request"
  shows "with_default (coerce_str V) ''groq/llama-3.3-70b-versatile'' ''model'' members
           = Inr (model request)"
    and "required_messages V members = Inr (messages request)"
    and "optional (coerce_float V) (Some (Finite (7 / 10))) ''temperature'' members
           = Inr (temperature request)"
    and "optional (coerce_int V) None ''max_tokens'' members = Inr (max_tokens request)"
    and "optional (coerce_float V) (Some (Finite 1)) ''top_p'' members = Inr (top_p request)"
    and "optional (coerce_float V) (Some (Finite 0)) ''frequency_penalty'' members
           = Inr (frequency_penalty request)"
    and "optional (coerce_float V) (Some (Finite 0)) ''presence_penalty'' members
           = Inr (presence_penalty request)"
    and "optional (validate_str_list V) None ''stop'' members = Inr (stop request)"
    and "optional (coerce_bool V) (Some False) ''stream'' members = Inr (stream request)"
  using assms by (auto simp: bind_result_Inr)










lemma validate_Messages_reject:
  "x \<in> set xs \<Longrightarrow> \<exists>e. validate_Message V x = Inl e \<Longrightarrow>
   \<exists>err. validate_Messages V xs = Inl err"
proof (induction xs)
  case Nil
  then show ?case by simp
next
  case (Cons y ys)
  show ?case
  proof (cases "validate_Message V y")
    case (Inl e)
    then show ?thesis by (simp add: bind_result_def)
  next
    case (Inr m)
    with Cons.prems have "x \<in> set ys" by auto
    from Cons.IH [OF this Cons.prems(2)] obtain err
      where "validate_Messages V ys = Inl err" ..
    then show ?thesis by (simp add: Inr bind_result_def)
  qed
qed

lemma validate_Message_missing:
  "jget ms ''role'' = None \<or> jget ms ''content'' = None \<Longrightarrow>
   \<exists>e. validate_Message V (JObj ms) = Inl e"
  by (cases "required (coerce_str V) ''role'' ms")
     (auto simp: bind_result_def required_def)

lemma validate_Message_not_object:
  "\<forall>ms. x \<noteq> JObj ms \<Longrightarrow> \<exists>e. validate_Message V x = Inl e"
  by (cases x) simp_all

lemma validate_rejects_messages:
  "required_messages V members = Inl e \<Longrightarrow>
   \<exists>err. validate_ChatCompletionRequest V (JObj members) = Inl err"
  by (cases "with_default (coerce_str V) ''groq/llama-3.3-70b-versatile'' ''model'' members")
     (simp_all add: bind_result_def)

lemma respond_chat_completions:
  "respond encode (chat_completions completion request) =
     (case completion (litellm_params request) of
        Inl e \<Rightarrow> (500, Detail (''Error processing request: '' @ e))
      | Inr response \<Rightarrow>
          (case encode response of
             Some j \<Rightarrow> (200, Result j)
           | None \<Rightarrow> (500, Internal_Server_Error)))"
  by (simp add: chat_completions_def split: sum.split)

lemmas validate_simps =
  jget_def required_def with_default_def optional_def required_messages_def bind_result_def
  example_coercion_def

lemma keeps_native_example: "keeps_native example_coercion"
  by (simp add: keeps_native_def example_coercion_def)

lemma validate_hello:
  "validate_ChatCompletionRequest example_coercion (JObj hello_members) = Inr hello_request"
  by (simp add: validate_simps hello_members_def hello_request_def)



section \<open>The forwarded parameters\<close>



text \<open>
  Claim C5. For the request of \<^verbatim>\<open>client_example.py\<close> (model, one user message,
  temperature 0.7, max_tokens 150) validation succeeds and the dict passed to the external
  call is the four supplied items followed by the defaults \<^verbatim>\<open>top_p\<close> 1.0,
  \<^verbatim>\<open>frequency_penalty\<close> 0.0, \<^verbatim>\<open>presence_penalty\<close> 0.0 and \<^verbatim>\<open>stream\<close> \<open>False\<close>, with no
  \<^verbatim>\<open>stop\<close>: the second alternative of the claim. The dict is a function of the body
  alone, so it is the same at every call, whatever the external call does.
\<close>

theorem joke_request_forwarded:
  assumes "keeps_native V"
  shows "\<exists>request. validate_ChatCompletionRequest V joke_body = Inr request
     \<and> litellm_params request =
         [(''model'', PStr ''groq/llama-3.3-70b-versatile''),
          (''messages'', PList [PDict [(''role'', PStr ''user''),
                                      (''content'', PStr ''Hello! Can you tell me a joke?'')]]),
          (''temperature'', PFloat (Finite (7 / 10))),
          (''max_tokens'', PInt 150),
          (''top_p'', PFloat (Finite 1)),
          (''frequency_penalty'', PFloat (Finite 0)),
          (''presence_penalty'', PFloat (Finite 0)),
          (''stream'', PBool False)]
     \<and> post_v1_chat_completions V encode completion joke_body
         = respond encode (chat_completions completion request)"
proof -
  from assms have n: "\<And>s. coerce_str V (JStr s) = Some s"
      "\<And>x. coerce_float V (JFloat x) = Some x"
      "\<And>i. coerce_int V (JInt i) = Some i"
    by (simp_all add: keeps_native_def)
  show ?thesis
    by (simp add: jget_def required_def with_default_def optional_def required_messages_def
        bind_result_def n joke_body_def litellm_params_def litellm_params_all_def
        message_dict_def post_v1_chat_completions_def)
qed

theorem joke_request_forwarded_witness:
  "keeps_native example_coercion
   \<and> post_v1_chat_completions example_coercion encode_pyval echo joke_body
     = (200, Result (PDict
         [(''model'', PStr ''groq/llama-3.3-70b-versatile''),
          (''messages'', PList [PDict [(''role'', PStr ''user''),
                                      (''content'', PStr ''Hello! Can you tell me a joke?'')]]),
          (''temperature'', PFloat (Finite (7 / 10))),
          (''max_tokens'', PInt 150),
          (''top_p'', PFloat (Finite 1)),
          (''frequency_penalty'', PFloat (Finite 0)),
          (''presence_penalty'', PFloat (Finite 0)),
          (''stream'', PBool False)]))"
proof -
  from joke_request_forwarded [OF keeps_native_example, of encode_pyval echo]
  obtain request where p: "litellm_params request =
         [(''model'', PStr ''groq/llama-3.3-70b-versatile''),
          (''messages'', PList [PDict [(''role'', PStr ''user''),
                                      (''content'', PStr ''Hello! Can you tell me a joke?'')]]),
          (''temperature'', PFloat (Finite (7 / 10))),
          (''max_tokens'', PInt 150),
          (''top_p'', PFloat (Finite 1)),
          (''frequency_penalty'', PFloat (Finite 0)),
          (''presence_penalty'', PFloat (Finite 0)),
          (''stream'', PBool False)]"
    and r: "post_v1_chat_completions example_coercion encode_pyval echo joke_body
         = respond encode_pyval (chat_completions echo request)"
    by (elim exE conjE)
  have "respond encode_pyval (chat_completions echo request)
     = (200, Result (PDict (litellm_params request)))"
    unfolding chat_completions_def echo_def p by (simp add: encode_pyval_def)
  with r p keeps_native_example show ?thesis by simp
qed





section \<open>Responses\<close>

text \<open>
  Claim C8, as stated, fails: the external call returns an object, here its keyword
  arguments with the \<^verbatim>\<open>NaN\<close> temperature of the body, the handler returns it, and the
  caller gets a bare 500 instead of the object, because the encoding of the response
  refuses it.
\<close>

theorem response_not_encodable_counterexample:
  "validate_ChatCompletionRequest example_coercion
       (JObj [(''messages'', JArr [JObj [(''role'', JStr ''user''), (''content'', JStr ''hi'')]]),
              (''temperature'', JFloat NaN)])
     = Inr \<lparr>model = ''groq/llama-3.3-70b-versatile'',
            messages = [\<lparr>role = ''user'', content = ''hi''\<rparr>],
            temperature = Some NaN, max_tokens = None, top_p = Some (Finite 1),
            frequency_penalty = Some (Finite 0), presence_penalty = Some (Finite 0),
            stop = None, stream = Some False\<rparr>
   \<and> chat_completions echo
        \<lparr>model = ''groq/llama-3.3-70b-versatile'',
         messages = [\<lparr>role = ''user'', content = ''hi''\<rparr>],
         temperature = Some NaN, max_tokens = None, top_p = Some (Finite 1),
         frequency_penalty = Some (Finite 0), presence_penalty = Some (Finite 0),
         stop = None, stream = Some False\<rparr>
     = Inr (PDict [(''model'', PStr ''groq/llama-3.3-70b-versatile''),
                   (''messages'', PList [PDict [(''role'', PStr ''user''),
                                               (''content'', PStr ''hi'')]]),
                   (''temperature'', PFloat NaN),
                   (''top_p'', PFloat (Finite 1)),
                   (''frequency_penalty'', PFloat (Finite 0)),
                   (''presence_penalty'', PFloat (Finite 0)),
                   (''stream'', PBool False)])
   \<and> post_v1_chat_completions example_coercion encode_pyval echo
       (JObj [(''messages'', JArr [JObj [(''role'', JStr ''user''), (''content'', JStr ''hi'')]]),
              (''temperature'', JFloat NaN)])
     = (500, Internal_Server_Error)"
  by (simp add: validate_simps post_v1_chat_completions_def chat_completions_def echo_def
      litellm_params_def litellm_params_all_def message_dict_def encode_pyval_def)

text \<open>
  Claim C8, amended. When the external call returns on an accepted request, the handler
  returns that very object. The response is then the encoding of that object with status
  200, or a bare 500 when the object cannot be encoded. A 200 response always carries
  the encoding of the object the external call returned: the handler renames, adds and
  removes nothing.
\<close>

theorem response_forwarded:
  "(validate_ChatCompletionRequest V body = Inr request
      \<and> completion (litellm_params request) = Inr response
    \<longrightarrow> chat_completions completion request = Inr response
      \<and> post_v1_chat_completions V encode completion body
          = (case encode response of
               Some j \<Rightarrow> (200, Result j)
             | None \<Rightarrow> (500, Internal_Server_Error)))
   \<and> (post_v1_chat_completions V encode completion body = (200, Result j)
      \<longleftrightarrow> (\<exists>request response. validate_ChatCompletionRequest V body = Inr request
            \<and> completion (litellm_params request) = Inr response
            \<and> encode response = Some j))"
proof -
  have 1: "validate_ChatCompletionRequest V body = Inr request
      \<and> completion (litellm_params request) = Inr response
    \<longrightarrow> chat_completions completion request = Inr response
      \<and> post_v1_chat_completions V encode completion body
          = (case encode response of
               Some j \<Rightarrow> (200, Result j)
             | None \<Rightarrow> (500, Internal_Server_Error))"
    by (simp add: post_v1_chat_completions_def chat_completions_def)
  have 2: "post_v1_chat_completions V encode completion body = (200, Result j)
      \<longleftrightarrow> (\<exists>request response. validate_ChatCompletionRequest V body = Inr request
            \<and> completion (litellm_params request) = Inr response
            \<and> encode response = Some j)"
  proof (cases "validate_ChatCompletionRequest V body")
    case (Inl err)
    then show ?thesis by (simp add: post_v1_chat_completions_def)
  next
    case (Inr request)
    show ?thesis
      unfolding post_v1_chat_completions_def Inr
      by (simp add: respond_chat_completions split: sum.split option.split)
  qed
  from 1 2 show ?thesis by (rule conjI)
qed

theorem response_forwarded_witness:
  "validate_ChatCompletionRequest example_coercion (JObj hello_members) = Inr hello_request
   \<and> echo (litellm_params hello_request) = Inr (PDict (litellm_params hello_request))
   \<and> chat_completions echo hello_request = Inr (PDict (litellm_params hello_request))
   \<and> post_v1_chat_completions example_coercion encode_pyval echo (JObj hello_members)
     = (200, Result (PDict (litellm_params hello_request)))"
proof -
  have e: "echo (litellm_params hello_request) = Inr (PDict (litellm_params hello_request))"
    by (simp add: echo_def)
  have c: "encode_pyval (PDict (litellm_params hello_request))
      = Some (PDict (litellm_params hello_request))"
    by (simp add: encode_pyval_def litellm_params_def litellm_params_all_def hello_request_def
        message_dict_def)
  from response_forwarded [of example_coercion "JObj hello_members" hello_request echo
      "PDict (litellm_params hello_request)" encode_pyval, THEN conjunct1, THEN mp,
      OF conjI [OF validate_hello e]]
  have "chat_completions echo hello_request = Inr (PDict (litellm_params hello_request))"
    and "post_v1_chat_completions example_coercion encode_pyval echo (JObj hello_members)
     = (200, Result (PDict (litellm_params hello_request)))"
    unfolding c by simp_all
  with validate_hello e show ?thesis by (intro conjI)
qed

text \<open>
  Claim C3, as stated, fails twice. A body whose \<^verbatim>\<open>messages\<close> is not a list fails while
  the request is built and is answered 422, not 500. A returned object that cannot be
  encoded raises after the handler has returned, outside the \<^verbatim>\<open>try\<close> block: the fault
  leaves the application unhandled and the answer is a bare 500 without a detail.
\<close>

theorem uncaught_fault_counterexample:
  "post_v1_chat_completions example_coercion encode_pyval echo
       (JObj [(''messages'', JStr ''hi'')])
     = (422, Validation_Detail (Invalid ''messages''))
   \<and> post_v1_chat_completions example_coercion encode_pyval echo
       (JObj [(''messages'', JArr [JObj [(''role'', JStr ''user''), (''content'', JStr ''hi'')]]),
              (''top_p'', JFloat Infinity)])
     = (500, Internal_Server_Error)"
  by (simp add: validate_simps post_v1_chat_completions_def chat_completions_def echo_def
      litellm_params_def litellm_params_all_def message_dict_def encode_pyval_def)

text \<open>
  Claim C3, amended. On an accepted request, an \<^verbatim>\<open>Exception\<close> raised by the external
  call is caught in the handler and answered with status 500 and the detail
  \<^verbatim>\<open>"Error processing request: "\<close> followed by \<^verbatim>\<open>str(e)\<close>, whatever the failure is. A
  500 response with a detail arises in no other way. A body that fails validation is
  answered 422 before the handler runs, and a returned object that cannot be encoded is
  answered with a bare 500.
\<close>

theorem exceptions_become_500:
  "(validate_ChatCompletionRequest V body = Inr request
      \<and> completion (litellm_params request) = Inl e
    \<longrightarrow> chat_completions completion request
          = Inl (HTTPException 500 (''Error processing request: '' @ e))
      \<and> post_v1_chat_completions V encode completion body
          = (500, Detail (''Error processing request: '' @ e)))
   \<and> (post_v1_chat_completions V encode completion body = (500, Detail d)
      \<longleftrightarrow> (\<exists>request e. validate_ChatCompletionRequest V body = Inr request
            \<and> completion (litellm_params request) = Inl e
            \<and> d = ''Error processing request: '' @ e))
   \<and> (validate_ChatCompletionRequest V body = Inl err
    \<longrightarrow> post_v1_chat_completions V encode completion body = (422, Validation_Detail err))
   \<and> (validate_ChatCompletionRequest V body = Inr request
      \<and> completion (litellm_params request) = Inr response \<and> encode response = None
    \<longrightarrow> post_v1_chat_completions V encode completion body = (500, Internal_Server_Error))"
proof -
  have 1: "validate_ChatCompletionRequest V body = Inr request
      \<and> completion (litellm_params request) = Inl e
    \<longrightarrow> chat_completions completion request
          = Inl (HTTPException 500 (''Error processing request: '' @ e))
      \<and> post_v1_chat_completions V encode completion body
          = (500, Detail (''Error processing request: '' @ e))"
    by (simp add: post_v1_chat_completions_def chat_completions_def)
  have 2: "post_v1_chat_completions V encode completion body = (500, Detail d)
      \<longleftrightarrow> (\<exists>request e. validate_ChatCompletionRequest V body = Inr request
            \<and> completion (litellm_params request) = Inl e
            \<and> d = ''Error processing request: '' @ e)"
  proof (cases "validate_ChatCompletionRequest V body")
    case (Inl err)
    then show ?thesis by (simp add: post_v1_chat_completions_def)
  next
    case (Inr request)
    show ?thesis
      unfolding post_v1_chat_completions_def Inr
      by (auto simp: respond_chat_completions split: sum.split option.split)
  qed
  have 3: "validate_ChatCompletionRequest V body = Inl err
    \<longrightarrow> post_v1_chat_completions V encode completion body = (422, Validation_Detail err)"
    by (simp add: post_v1_chat_completions_def)
  have 4: "validate_ChatCompletionRequest V body = Inr request
      \<and> completion (litellm_params request) = Inr response \<and> encode response = None
    \<longrightarrow> post_v1_chat_completions V encode completion body = (500, Internal_Server_Error)"
    by (simp add: post_v1_chat_completions_def chat_completions_def)
  from 1 2 3 4 show ?thesis by (intro conjI)
qed

theorem exceptions_become_500_witness:
  "validate_ChatCompletionRequest example_coercion (JObj hello_members) = Inr hello_request
   \<and> (\<lambda>params. Inl ''RateLimitError: rate limit reached'' :: string + pyval)
        (litellm_params hello_request) = Inl ''RateLimitError: rate limit reached''
   \<and> post_v1_chat_completions example_coercion encode_pyval
        (\<lambda>params. Inl ''RateLimitError: rate limit reached'' :: string + pyval)
        (JObj hello_members)
      = (500, Detail ''Error processing request: RateLimitError: rate limit reached'')"
proof -
  let ?c = "\<lambda>params :: (string \<times> pyval) list.
              Inl ''RateLimitError: rate limit reached'' :: string + pyval"
  have e: "?c (litellm_params hello_request) = Inl ''RateLimitError: rate limit reached''"
    by simp
  from exceptions_become_500 [of example_coercion "JObj hello_members" hello_request ?c
      "''RateLimitError: rate limit reached''" encode_pyval, THEN conjunct1, THEN mp,
      OF conjI [OF validate_hello e]]
  have "post_v1_chat_completions example_coercion encode_pyval ?c (JObj hello_members)
      = (500, Detail ''Error processing request: RateLimitError: rate limit reached'')"
    by simp
  with validate_hello e show ?thesis by (intro conjI)
qed

text \<open>
  Claim C6. \<^verbatim>\<open>POST /chat/completions\<close> answers every body as
  \<^verbatim>\<open>POST /v1/chat/completions\<close> does, given the same behaviour of the external call.
\<close>

theorem alias_equivalence:
  "post_chat_completions V encode completion body
     = post_v1_chat_completions V encode completion body"
  by (simp add: post_chat_completions_def post_v1_chat_completions_def
      chat_completions_simple_def split: sum.split)

text \<open>
  Claim C7. \<^verbatim>\<open>GET /v1/models\<close> is a constant: a 200 response whose body has the keys
  \<^verbatim>\<open>object\<close> (the string \<^verbatim>\<open>list\<close>) and \<^verbatim>\<open>data\<close>, a list of five entries, each with
  exactly the keys \<^verbatim>\<open>id\<close>, \<^verbatim>\<open>object\<close>, \<^verbatim>\<open>created\<close> and \<^verbatim>\<open>owned_by\<close>, with
  \<^verbatim>\<open>object\<close> equal to \<^verbatim>\<open>model\<close> and the five fixed identifiers in order. The handler has
  no parameter and reads no state, so neither the provider nor earlier requests can
  change the result.
\<close>

theorem list_models_catalog:
  "get_v1_models = (200, Result list_models)
   \<and> dict_keys list_models = [''object'', ''data'']
   \<and> dict_get list_models ''object'' = Some (PStr ''list'')
   \<and> (\<exists>entries. dict_get list_models ''data'' = Some (PList entries)
        \<and> length entries = 5
        \<and> map dict_keys entries = replicate 5 [''id'', ''object'', ''created'', ''owned_by'']
        \<and> map (\<lambda>e. dict_get e ''object'') entries = replicate 5 (Some (PStr ''model''))
        \<and> map (\<lambda>e. dict_get e ''id'') entries =
            [Some (PStr ''groq/llama-3.3-70b-versatile''),
             Some (PStr ''groq/llama-3.1-8b-instant''),
             Some (PStr ''groq/deepseek-r1-distill-llama-70b''),
             Some (PStr ''groq/meta-llama/llama-4-maverick-17b-128e-instruct''),
             Some (PStr ''groq/meta-llama/llama-4-scout-17b-16e-instruct'')]
        \<and> map (\<lambda>e. dict_get e ''created'') entries = replicate 5 (Some (PInt 1234567890))
        \<and> map (\<lambda>e. dict_get e ''owned_by'') entries = replicate 5 (Some (PStr ''groq'')))"
proof -
  have e: "json_compliant list_models"
    by (simp add: list_models_def)
  have g: "get_v1_models = (200, Result list_models)"
    by (simp add: get_v1_models_def encode_pyval_def e)
  have r: "dict_keys list_models = [''object'', ''data'']
   \<and> dict_get list_models ''object'' = Some (PStr ''list'')
   \<and> (\<exists>entries. dict_get list_models ''data'' = Some (PList entries)
        \<and> length entries = 5
        \<and> map dict_keys entries = replicate 5 [''id'', ''object'', ''created'', ''owned_by'']
        \<and> map (\<lambda>e. dict_get e ''object'') entries = replicate 5 (Some (PStr ''model''))
        \<and> map (\<lambda>e. dict_get e ''id'') entries =
            [Some (PStr ''groq/llama-3.3-70b-versatile''),
             Some (PStr ''groq/llama-3.1-8b-instant''),
             Some (PStr ''groq/deepseek-r1-distill-llama-70b''),
             Some (PStr ''groq/meta-llama/llama-4-maverick-17b-128e-instruct''),
             Some (PStr ''groq/meta-llama/llama-4-scout-17b-16e-instruct'')]
        \<and> map (\<lambda>e. dict_get e ''created'') entries = replicate 5 (Some (PInt 1234567890))
        \<and> map (\<lambda>e. dict_get e ''owned_by'') entries = replicate 5 (Some (PStr ''groq'')))"
    by (simp add: list_models_def dict_keys_def dict_get_def numeral_eq_Suc)
  from g r show ?thesis by (rule conjI)
qed

section \<open>Validation comes before the handler\<close>

text \<open>
  Claim C1, as stated, fails: the body \<^verbatim>\<open>{"messages": []}\<close> is accepted, and with an
  external call that returns its keyword arguments the response is 200 and shows the
  empty \<^verbatim>\<open>messages\<close> list that was passed on.
\<close>

theorem empty_messages_counterexample:
  "validate_ChatCompletionRequest example_coercion (JObj [(''messages'', JArr [])])
     = Inr \<lparr>model = ''groq/llama-3.3-70b-versatile'', messages = [],
            temperature = Some (Finite (7 / 10)), max_tokens = None, top_p = Some (Finite 1),
            frequency_penalty = Some (Finite 0), presence_penalty = Some (Finite 0),
            stop = None, stream = Some False\<rparr>
   \<and> post_v1_chat_completions example_coercion encode_pyval echo
         (JObj [(''messages'', JArr [])])
     = (200, Result (PDict [(''model'', PStr ''groq/llama-3.3-70b-versatile''),
                            (''messages'', PList []),
                            (''temperature'', PFloat (Finite (7 / 10))),
                            (''top_p'', PFloat (Finite 1)),
                            (''frequency_penalty'', PFloat (Finite 0)),
                            (''presence_penalty'', PFloat (Finite 0)),
                            (''stream'', PBool False)]))"
  by (simp add: validate_simps post_v1_chat_completions_def chat_completions_def echo_def
      litellm_params_def litellm_params_all_def encode_pyval_def)

text \<open>
  Claim C1, amended. \<^verbatim>\<open>List[Message]\<close> has no minimum length: an empty \<^verbatim>\<open>messages\<close>
  array passes the validation of that field, and when the whole body is accepted the
  handler passes \<^verbatim>\<open>messages = []\<close> to the external call. The response is what the
  external call makes of it: 500 with the text of the exception it raises, 200 with the
  encoding of the object it returns, or a bare 500 when that object cannot be encoded.
\<close>

theorem empty_messages_forwarded:
  assumes "jget members ''messages'' = Some (JArr [])"
    and "validate_ChatCompletionRequest V (JObj members) = Inr request"
  shows "required_messages V members = Inr []
    \<and> messages request = []
    \<and> map_of (litellm_params request) ''messages'' = Some (PList [])
    \<and> post_v1_chat_completions V encode completion (JObj members)
        = (case completion (litellm_params request) of
             Inl e \<Rightarrow> (500, Detail (''Error processing request: '' @ e))
           | Inr response \<Rightarrow>
               (case encode response of
                  Some j \<Rightarrow> (200, Result j)
                | None \<Rightarrow> (500, Internal_Server_Error)))"
proof -
  have r: "required_messages V members = Inr []"
    using assms(1) by (simp add: required_messages_def)
  with validate_fields(2) [OF assms(2)] have m: "messages request = []"
    by simp
  then have fw: "map_of (litellm_params request) ''messages'' = Some (PList [])"
    by (simp add: map_of_litellm_params)
  have p: "post_v1_chat_completions V encode completion (JObj members)
        = (case completion (litellm_params request) of
             Inl e \<Rightarrow> (500, Detail (''Error processing request: '' @ e))
           | Inr response \<Rightarrow>
               (case encode response of
                  Some j \<Rightarrow> (200, Result j)
                | None \<Rightarrow> (500, Internal_Server_Error)))"
    unfolding post_v1_chat_completions_def assms(2) respond_chat_completions [symmetric]
    by simp
  from r m fw p show ?thesis by (intro conjI)
qed

theorem empty_messages_forwarded_witness:
  "jget [(''messages'', JArr []), (''stream'', JBool True)] ''messages'' = Some (JArr [])
   \<and> validate_ChatCompletionRequest example_coercion
        (JObj [(''messages'', JArr []), (''stream'', JBool True)])
      = Inr \<lparr>model = ''groq/llama-3.3-70b-versatile'', messages = [],
            temperature = Some (Finite (7 / 10)), max_tokens = None, top_p = Some (Finite 1),
            frequency_penalty = Some (Finite 0), presence_penalty = Some (Finite 0),
            stop = None, stream = Some True\<rparr>
   \<and> post_v1_chat_completions example_coercion encode_pyval
        (\<lambda>params. Inl ''BadRequestError: messages is empty'' :: string + pyval)
        (JObj [(''messages'', JArr []), (''stream'', JBool True)])
      = (500, Detail ''Error processing request: BadRequestError: messages is empty'')"
proof -
  let ?m = "[(''messages'', JArr []), (''stream'', JBool True)]"
  let ?r = "\<lparr>model = ''groq/llama-3.3-70b-versatile'', messages = [],
            temperature = Some (Finite (7 / 10)), max_tokens = None, top_p = Some (Finite 1),
            frequency_penalty = Some (Finite 0), presence_penalty = Some (Finite 0),
            stop = None, stream = Some True\<rparr>"
  let ?c = "\<lambda>params :: (string \<times> pyval) list.
              Inl ''BadRequestError: messages is empty'' :: string + pyval"
  have j: "jget ?m ''messages'' = Some (JArr [])"
    by (simp add: jget_def)
  have v: "validate_ChatCompletionRequest example_coercion (JObj ?m) = Inr ?r"
    by (simp add: validate_simps)
  note t = empty_messages_forwarded [OF j v, of encode_pyval ?c]
  note p = t [THEN conjunct2, THEN conjunct2, THEN conjunct2]
  from p have p': "post_v1_chat_completions example_coercion encode_pyval ?c (JObj ?m)
      = (500, Detail ''Error processing request: BadRequestError: messages is empty'')"
    by simp
  from j v p' show ?thesis by (intro conjI)
qed

text \<open>
  Claim C4, as stated, fails: a body without \<^verbatim>\<open>messages\<close>, and a body with a message
  without \<^verbatim>\<open>content\<close>, are answered with status 422, not 500.
\<close>

theorem schema_error_counterexample:
  "post_v1_chat_completions example_coercion encode_pyval echo
       (JObj [(''model'', JStr ''groq/llama-3.1-8b-instant'')])
     = (422, Validation_Detail (Missing ''messages''))
   \<and> post_v1_chat_completions example_coercion encode_pyval echo
       (JObj [(''messages'', JArr [JObj [(''role'', JStr ''user'')]])])
     = (422, Validation_Detail (Missing ''content''))"
  by (simp add: validate_simps post_v1_chat_completions_def)

text \<open>
  Claim C4, amended. Every body that fails validation is answered with status 422 and
  the validation error, on both routes and whatever the external call would do. Such are
  a body that is no object, a body without \<^verbatim>\<open>messages\<close> or with \<^verbatim>\<open>messages\<close> that is no
  array, and a body with a message that is no object or lacks \<^verbatim>\<open>role\<close> or \<^verbatim>\<open>content\<close>.
  An exception of the external call is answered 500, so the status tells a schema error
  from an upstream error.
\<close>

theorem schema_errors_are_422:
  "(validate_ChatCompletionRequest V body = Inl err
    \<longrightarrow> post_v1_chat_completions V encode completion body = (422, Validation_Detail err)
      \<and> post_chat_completions V encode completion body = (422, Validation_Detail err))
   \<and> ((\<forall>members. body \<noteq> JObj members)
    \<longrightarrow> (\<exists>err. validate_ChatCompletionRequest V body = Inl err))
   \<and> (body = JObj members
      \<and> (jget members ''messages'' = None
         \<or> (\<exists>v. jget members ''messages'' = Some v \<and> (\<forall>xs. v \<noteq> JArr xs))
         \<or> (\<exists>xs x. jget members ''messages'' = Some (JArr xs) \<and> x \<in> set xs
              \<and> ((\<forall>ms. x \<noteq> JObj ms)
                 \<or> (\<exists>ms. x = JObj ms
                      \<and> (jget ms ''role'' = None \<or> jget ms ''content'' = None)))))
    \<longrightarrow> (\<exists>err. validate_ChatCompletionRequest V body = Inl err))
   \<and> (validate_ChatCompletionRequest V body = Inr request
      \<and> completion (litellm_params request) = Inl e
    \<longrightarrow> fst (post_v1_chat_completions V encode completion body) = 500)"
proof -
  have 1: "validate_ChatCompletionRequest V body = Inl err
    \<longrightarrow> post_v1_chat_completions V encode completion body = (422, Validation_Detail err)
      \<and> post_chat_completions V encode completion body = (422, Validation_Detail err)"
    by (simp add: post_v1_chat_completions_def post_chat_completions_def)
  have 2: "(\<forall>members. body \<noteq> JObj members)
    \<longrightarrow> (\<exists>err. validate_ChatCompletionRequest V body = Inl err)"
    by (cases body) simp_all
  have 3: "body = JObj members
      \<and> (jget members ''messages'' = None
         \<or> (\<exists>v. jget members ''messages'' = Some v \<and> (\<forall>xs. v \<noteq> JArr xs))
         \<or> (\<exists>xs x. jget members ''messages'' = Some (JArr xs) \<and> x \<in> set xs
              \<and> ((\<forall>ms. x \<noteq> JObj ms)
                 \<or> (\<exists>ms. x = JObj ms
                      \<and> (jget ms ''role'' = None \<or> jget ms ''content'' = None)))))
    \<longrightarrow> (\<exists>err. validate_ChatCompletionRequest V body = Inl err)"
  proof (intro impI, elim conjE)
    assume b: "body = JObj members"
    assume "jget members ''messages'' = None
         \<or> (\<exists>v. jget members ''messages'' = Some v \<and> (\<forall>xs. v \<noteq> JArr xs))
         \<or> (\<exists>xs x. jget members ''messages'' = Some (JArr xs) \<and> x \<in> set xs
              \<and> ((\<forall>ms. x \<noteq> JObj ms)
                 \<or> (\<exists>ms. x = JObj ms
                      \<and> (jget ms ''role'' = None \<or> jget ms ''content'' = None))))"
    then have "\<exists>e. required_messages V members = Inl e"
    proof (elim disjE exE conjE)
      assume "jget members ''messages'' = None"
      then show ?thesis by (simp add: required_messages_def)
    next
      fix v assume "jget members ''messages'' = Some v" and "\<forall>xs. v \<noteq> JArr xs"
      then show ?thesis by (cases v) (simp_all add: required_messages_def)
    next
      fix xs x assume xs: "jget members ''messages'' = Some (JArr xs)"
        and x: "x \<in> set xs" and "\<forall>ms. x \<noteq> JObj ms"
      from validate_Messages_reject [OF x validate_Message_not_object [OF this(3)]]
      show ?thesis by (simp add: required_messages_def xs)
    next
      fix xs x ms assume xs: "jget members ''messages'' = Some (JArr xs)"
        and x: "x \<in> set xs" and o: "x = JObj ms"
        and miss: "jget ms ''role'' = None"
      from validate_Message_missing [OF disjI1, OF miss]
      have "\<exists>e. validate_Message V x = Inl e"
        unfolding o .
      from validate_Messages_reject [OF x this]
      show ?thesis by (simp add: required_messages_def xs)
    next
      fix xs x ms assume xs: "jget members ''messages'' = Some (JArr xs)"
        and x: "x \<in> set xs" and o: "x = JObj ms"
        and miss: "jget ms ''content'' = None"
      from validate_Message_missing [OF disjI2, OF miss]
      have "\<exists>e. validate_Message V x = Inl e"
        unfolding o .
      from validate_Messages_reject [OF x this]
      show ?thesis by (simp add: required_messages_def xs)
    qed
    then obtain e where "required_messages V members = Inl e" ..
    from validate_rejects_messages [OF this]
    show "\<exists>err. validate_ChatCompletionRequest V body = Inl err"
      unfolding b .
  qed
  have 4: "validate_ChatCompletionRequest V body = Inr request
      \<and> completion (litellm_params request) = Inl e
    \<longrightarrow> fst (post_v1_chat_completions V encode completion body) = 500"
    by (simp add: post_v1_chat_completions_def chat_completions_def)
  from 1 2 3 4 show ?thesis by (intro conjI)
qed

theorem schema_errors_are_422_witness:
  "jget [(''messages'', JArr [JObj [(''content'', JStr ''hi'')]])] ''messages''
     = Some (JArr [JObj [(''content'', JStr ''hi'')]])
   \<and> JObj [(''content'', JStr ''hi'')] \<in> set [JObj [(''content'', JStr ''hi'')]]
   \<and> jget [(''content'', JStr ''hi'')] ''role'' = None
   \<and> fst (post_v1_chat_completions example_coercion encode_pyval
        (\<lambda>params. Inl ''AuthenticationError'' :: string + pyval)
        (JObj [(''messages'', JArr [JObj [(''content'', JStr ''hi'')]])])) = 422"
proof -
  let ?m = "[(''messages'', JArr [JObj [(''content'', JStr ''hi'')]])]"
  let ?c = "\<lambda>params :: (string \<times> pyval) list. Inl ''AuthenticationError'' :: string + pyval"
  have j: "jget ?m ''messages'' = Some (JArr [JObj [(''content'', JStr ''hi'')]])"
    by (simp add: jget_def)
  have i: "JObj [(''content'', JStr ''hi'')] \<in> set [JObj [(''content'', JStr ''hi'')]]"
    by simp
  have r: "jget [(''content'', JStr ''hi'')] ''role'' = None"
    by (simp add: jget_def)
  have h: "JObj ?m = JObj ?m
      \<and> (jget ?m ''messages'' = None
         \<or> (\<exists>v. jget ?m ''messages'' = Some v \<and> (\<forall>xs. v \<noteq> JArr xs))
         \<or> (\<exists>xs x. jget ?m ''messages'' = Some (JArr xs) \<and> x \<in> set xs
              \<and> ((\<forall>ms. x \<noteq> JObj ms)
                 \<or> (\<exists>ms. x = JObj ms
                      \<and> (jget ms ''role'' = None \<or> jget ms ''content'' = None)))))"
    using j i r by blast
  note t = schema_errors_are_422 [of example_coercion "JObj ?m" _ encode_pyval ?c ?m]
  from t [THEN conjunct2, THEN conjunct2, THEN conjunct1, THEN mp, OF h] obtain err
    where err: "validate_ChatCompletionRequest example_coercion (JObj ?m) = Inl err" ..
  from schema_errors_are_422 [of example_coercion "JObj ?m" err encode_pyval ?c,
      THEN conjunct1, THEN mp, OF err]
  have "fst (post_v1_chat_completions example_coercion encode_pyval ?c (JObj ?m)) = 422"
    by simp
  with j i r show ?thesis by (intro conjI)
qed

end
